theory Spec2Isabelle
  imports Complex_Main
begin

section \<open>Nighttime Light Modeller: pixel-wise regression forecast\<close>

text \<open>
  A shallow embedding of \<^verbatim>\<open>NighttimeLightModeller.processAlgorithm\<close>
  (\<^verbatim>\<open>src/nighttimelight_modeller.py\<close>). Raster cells and all derived quantities are
  exact real numbers: the rounding of numpy's float64 and float32 arithmetic (and the
  float32 cast on storing into \<^verbatim>\<open>preds\<close>, \<^verbatim>\<open>r2_vals\<close>, \<^verbatim>\<open>rmse_vals\<close>) is
  not represented, and input cells are finite numbers. The only NaN of the embedding is
  the initial fill of the two metric arrays, written \<open>None\<close>.

  A numpy array is its shape together with its row-major buffer, so that
  \<^verbatim>\<open>reshape\<close>, \<^verbatim>\<open>flatten\<close> and \<^verbatim>\<open>.flat[idx]\<close> leave the buffer untouched.
\<close>

subsection \<open>Arrays, rasters, errors\<close>

record grid =
  nrows :: nat
  ncols :: nat
  flat :: "real list"

text \<open>What \<^verbatim>\<open>rasterio.open(p)\<close> exposes of one input file: \<^verbatim>\<open>src.nodata\<close> and
  \<^verbatim>\<open>read(1)\<close>.\<close>

record raster =
  nodata :: "real option"
  band1 :: grid

datatype error = QgsProcessingException string | ValueError string

text \<open>
  The class of a raised exception, \<^verbatim>\<open>type(e).__name__\<close>. The module defines no exception
  class of its own: it raises \<^verbatim>\<open>QgsProcessingException\<close> twice, and every other exception
  comes out of a library call.
\<close>

fun exception_class :: "error \<Rightarrow> string" where
  "exception_class (QgsProcessingException msg) = ''QgsProcessingException''"
| "exception_class (ValueError msg) = ''ValueError''"

datatype model_name = Linear | Polynomial | Ridge | Lasso

datatype norm_name = NoNorm | MinMax | Zscore

definition same_shape :: "grid \<Rightarrow> grid \<Rightarrow> bool" where
  "same_shape a b = (nrows a = nrows b \<and> ncols a = ncols b)"

text \<open>\<^verbatim>\<open>np.stack(arrays, axis=0)\<close>: the shape \<open>(H, W)\<close> of the layers and their buffers,
  or numpy's ValueError when the shapes differ.\<close>

definition np_stack :: "grid list \<Rightarrow> error + (nat \<times> nat \<times> real list list)" where
  "np_stack arrays =
     (case arrays of
        [] \<Rightarrow> Inl (ValueError ''need at least one array to stack'')
      | a # rest \<Rightarrow>
          if list_all (same_shape a) rest
          then Inr (nrows a, ncols a, map flat arrays)
          else Inl (ValueError ''all input arrays must have the same shape''))"

definition np_arange :: "int \<Rightarrow> int \<Rightarrow> int list" where
  "np_arange a b = [a..b - 1]"

text \<open>\<^verbatim>\<open>.reshape(-1,1)\<close> of a vector of integers, read as the feature matrix it is used as.\<close>

definition column :: "int list \<Rightarrow> real list list" where
  "column xs = map (\<lambda>x. [real_of_int x]) xs"

definition years :: "nat \<Rightarrow> real list list" where
  "years n_paths = column (np_arange 2013 (2013 + int n_paths))"

text \<open>\<^verbatim>\<open>flat[:,idx]\<close>: the time series of one pixel.\<close>

definition series :: "real list list \<Rightarrow> nat \<Rightarrow> real list" where
  "series flat_data idx = map (\<lambda>layer. layer ! idx) flat_data"

text \<open>\<^verbatim>\<open>~np.any(data == nodata_val, axis=0) if nodata_val is not None else np.ones((H,W),bool)\<close>,
  as the buffer that \<^verbatim>\<open>valid_mask.flat[idx]\<close> reads.\<close>

definition valid_mask :: "real list list \<Rightarrow> nat \<Rightarrow> real option \<Rightarrow> bool list" where
  "valid_mask flat_data n_pixels nodata_val =
     (case nodata_val of
        Some s \<Rightarrow> map (\<lambda>idx. \<not> list_ex (\<lambda>v. v = s) (series flat_data idx)) [0..<n_pixels]
      | None \<Rightarrow> replicate n_pixels True)"

subsection \<open>The scikit-learn interface\<close>

text \<open>
  The regression estimators are library code. A fitted linear model is its
  \<^verbatim>\<open>coef_\<close> and \<^verbatim>\<open>intercept_\<close>; the three estimator classes the program instantiates
  are parameters of the embedding, each a function from the design matrix and the targets
  to the fitted model. Prediction and the \<^verbatim>\<open>score\<close> method are the library's documented
  formulas.
\<close>

record linmodel =
  coef :: "real list"
  intercept :: real

type_synonym fit_fn = "real list list \<Rightarrow> real list \<Rightarrow> linmodel"

record sklearn =
  LinearRegression_fit :: fit_fn
  Ridge_fit :: fit_fn
  Lasso_fit :: fit_fn

definition predict_row :: "linmodel \<Rightarrow> real list \<Rightarrow> real" where
  "predict_row mdl row = sum_list (map2 (*) row (coef mdl)) + intercept mdl"

definition predict :: "linmodel \<Rightarrow> real list list \<Rightarrow> real list" where
  "predict mdl X = map (predict_row mdl) X"

definition np_mean :: "real list \<Rightarrow> real" where
  "np_mean xs = sum_list xs / real (length xs)"

definition r2_score :: "real list \<Rightarrow> real list \<Rightarrow> real" where
  "r2_score y_true y_pred =
     (let numerator = sum_list (map2 (\<lambda>t p. (t - p)\<^sup>2) y_true y_pred);
          y_bar = np_mean y_true;
          denominator = sum_list (map (\<lambda>t. (t - y_bar)\<^sup>2) y_true)
      in if denominator \<noteq> 0 then 1 - numerator / denominator
         else if numerator \<noteq> 0 then 0 else 1)"

definition score :: "linmodel \<Rightarrow> real list list \<Rightarrow> real list \<Rightarrow> real" where
  "score mdl X y = r2_score y (predict mdl X)"

text \<open>The dictionary lookup that selects the estimator: the polynomial model is a
  \<^verbatim>\<open>LinearRegression\<close> on expanded features.\<close>

definition select_model :: "sklearn \<Rightarrow> model_name \<Rightarrow> fit_fn" where
  "select_model sk m =
     (case m of
        Linear \<Rightarrow> LinearRegression_fit sk
      | Polynomial \<Rightarrow> LinearRegression_fit sk
      | Ridge \<Rightarrow> Ridge_fit sk
      | Lasso \<Rightarrow> Lasso_fit sk)"

subsection \<open>Feature expansion\<close>

text \<open>\<^verbatim>\<open>PolynomialFeatures(degree=2)\<close>: \<^verbatim>\<open>fit\<close> records the number of input columns;
  \<^verbatim>\<open>transform\<close> maps a row to the bias 1, the inputs, and the products of every pair
  of inputs.\<close>

definition poly_fit :: "real list list \<Rightarrow> nat" where
  "poly_fit X = (case X of [] \<Rightarrow> 0 | row # _ \<Rightarrow> length row)"

definition poly_row :: "nat \<Rightarrow> real list \<Rightarrow> real list" where
  "poly_row n row =
     1 # take n row @ concat (map (\<lambda>i. map (\<lambda>j. row ! i * row ! j) [i..<n]) [0..<n])"

definition poly_transform :: "nat \<Rightarrow> real list list \<Rightarrow> real list list" where
  "poly_transform n X = map (poly_row n) X"

definition expand_features ::
  "model_name \<Rightarrow> real list list \<Rightarrow> real list list \<Rightarrow> real list list \<times> real list list" where
  "expand_features m yrs future_years =
     (if m = Polynomial
      then (let poly = poly_fit yrs in (poly_transform poly yrs, poly_transform poly future_years))
      else (yrs, future_years))"

subsection \<open>Normalization\<close>

datatype scaler = MinMaxScaler real real | StandardScaler real real

definition handle_zeros_in_scale :: "real \<Rightarrow> real" where
  "handle_zeros_in_scale s = (if s = 0 then 1 else s)"

definition np_min :: "real list \<Rightarrow> real" where
  "np_min xs = fold min xs (hd xs)"

definition np_max :: "real list \<Rightarrow> real" where
  "np_max xs = fold max xs (hd xs)"

text \<open>\<^verbatim>\<open>MinMaxScaler sc mn\<close> holds \<^verbatim>\<open>scale_\<close> and \<^verbatim>\<open>min_\<close>;
  \<^verbatim>\<open>StandardScaler mu sd\<close> holds \<^verbatim>\<open>mean_\<close> and \<^verbatim>\<open>scale_\<close>.\<close>

definition MinMaxScaler_fit :: "real list \<Rightarrow> scaler" where
  "MinMaxScaler_fit y =
     (let data_min = np_min y;
          data_range = np_max y - data_min;
          sc = 1 / handle_zeros_in_scale data_range
      in MinMaxScaler sc (0 - data_min * sc))"

definition StandardScaler_fit :: "real list \<Rightarrow> scaler" where
  "StandardScaler_fit y =
     (let mu = np_mean y;
          var = np_mean (map (\<lambda>v. (v - mu)\<^sup>2) y)
      in StandardScaler mu (handle_zeros_in_scale (sqrt var)))"

fun transform :: "scaler \<Rightarrow> real list \<Rightarrow> real list" where
  "transform (MinMaxScaler sc mn) xs = map (\<lambda>x. x * sc + mn) xs"
| "transform (StandardScaler mu sd) xs = map (\<lambda>x. (x - mu) / sd) xs"

fun inverse_transform :: "scaler \<Rightarrow> real list \<Rightarrow> real list" where
  "inverse_transform (MinMaxScaler sc mn) xs = map (\<lambda>x. (x - mn) / sc) xs"
| "inverse_transform (StandardScaler mu sd) xs = map (\<lambda>x. x * sd + mu) xs"

definition normalize_series :: "norm_name \<Rightarrow> real list \<Rightarrow> scaler option \<times> real list" where
  "normalize_series nrm y =
     (if nrm = MinMax then (let s = MinMaxScaler_fit y in (Some s, transform s y))
      else if nrm = Zscore then (let s = StandardScaler_fit y in (Some s, transform s y))
      else (None, y))"

text \<open>\<^verbatim>\<open>scaler.inverse_transform(v) if scaler else v\<close>\<close>

definition denormalize :: "scaler option \<Rightarrow> real list \<Rightarrow> real list" where
  "denormalize scaler v = (case scaler of Some s \<Rightarrow> inverse_transform s v | None \<Rightarrow> v)"

subsection \<open>The per-pixel fit and the pixel loop\<close>

definition rms :: "real list \<Rightarrow> real" where
  "rms resid = sqrt (np_mean (map (\<lambda>r. r\<^sup>2) resid))"

text \<open>The body of the loop for one valid pixel: the forecast vector, the R-squared score and the RMSE.\<close>

definition fit_pixel ::
  "sklearn \<Rightarrow> model_name \<Rightarrow> norm_name \<Rightarrow> real list list \<Rightarrow> real list list \<Rightarrow> real list
     \<Rightarrow> real list \<times> real \<times> real" where
  "fit_pixel sk m nrm years_feat future_feat y =
     (let (scaler, y_norm) = normalize_series nrm y;
          mdl = select_model sk m years_feat y_norm;
          y_pred_norm = predict mdl years_feat;
          y_pred = denormalize scaler y_pred_norm;
          pred_norm = predict mdl future_feat;
          pred = denormalize scaler pred_norm;
          r2 = score mdl years_feat y_norm;
          resid = map2 (\<lambda>p a. p - a) y_pred y
      in (pred, r2, rms resid))"

record outputs =
  preds :: "real list list"
  r2_vals :: "real option list"
  rmse_vals :: "real option list"

definition init_outputs :: "nat \<Rightarrow> nat \<Rightarrow> outputs" where
  "init_outputs n_future n_pixels =
     \<lparr>preds = replicate n_future (replicate n_pixels 0),
      r2_vals = replicate n_pixels None,
      rmse_vals = replicate n_pixels None\<rparr>"

text \<open>\<^verbatim>\<open>preds[:,idx] = pred; r2_vals[idx] = ...; rmse_vals[idx] = ...\<close>\<close>

definition store :: "nat \<Rightarrow> real list \<times> real \<times> real \<Rightarrow> outputs \<Rightarrow> outputs" where
  "store idx res out =
     (case res of (pred, r2, rmse) \<Rightarrow>
        \<lparr>preds = map2 (\<lambda>row p. row[idx := p]) (preds out) pred,
         r2_vals = (r2_vals out)[idx := Some r2],
         rmse_vals = (rmse_vals out)[idx := Some rmse]\<rparr>)"

text \<open>
  \<^verbatim>\<open>for idx in range(n_pixels)\<close>. \<open>isCanceled idx\<close> is the answer of
  \<^verbatim>\<open>feedback.isCanceled()\<close> at the poll that opens iteration \<open>idx\<close>; \<open>body idx\<close>
  is the fit of pixel \<open>idx\<close>. The calls \<^verbatim>\<open>feedback.setProgress\<close> and
  \<^verbatim>\<open>feedback.pushInfo\<close> only write to the progress sink and are left out.
\<close>

fun pixel_loop ::
  "(nat \<Rightarrow> bool) \<Rightarrow> bool list \<Rightarrow> (nat \<Rightarrow> real list \<times> real \<times> real) \<Rightarrow> nat list
     \<Rightarrow> outputs \<Rightarrow> outputs" where
  "pixel_loop isCanceled valid body [] out = out"
| "pixel_loop isCanceled valid body (idx # rest) out =
     (if isCanceled idx then out
      else if \<not> valid ! idx then pixel_loop isCanceled valid body rest out
      else pixel_loop isCanceled valid body rest (store idx (body idx) out))"

text \<open>\<^verbatim>\<open>np.maximum(preds,0)\<close>\<close>

definition clip :: "real list list \<Rightarrow> real list list" where
  "clip p = map (map (\<lambda>v. max v 0)) p"

text \<open>
  Lines 119 to 175 of \<^verbatim>\<open>processAlgorithm\<close>: stack, mask, expand, loop, clip. The result
  carries the grid shape \<open>(H, W)\<close> that the final \<^verbatim>\<open>reshape\<close> gives every prediction layer.
\<close>

definition fit_and_forecast ::
  "sklearn \<Rightarrow> (nat \<Rightarrow> bool) \<Rightarrow> raster list \<Rightarrow> int list \<Rightarrow> model_name \<Rightarrow> norm_name
     \<Rightarrow> error + (nat \<times> nat \<times> outputs)" where
  "fit_and_forecast sk isCanceled rasters future_years m nrm =
     (let nodata_val = nodata (hd rasters);
          arrays = map band1 rasters
      in case np_stack arrays of
           Inl e \<Rightarrow> Inl e
         | Inr (H, W, flat_data) \<Rightarrow>
            (let yrs = years (length rasters);
                 valid = valid_mask flat_data (H * W) nodata_val;
                 n_pixels = H * W;
                 n_future = length future_years;
                 (years_feat, future_feat) = expand_features m yrs (column future_years);
                 out = pixel_loop isCanceled valid
                         (\<lambda>idx. fit_pixel sk m nrm years_feat future_feat (series flat_data idx))
                         [0..<n_pixels] (init_outputs n_future n_pixels)
             in Inr (H, W, out\<lparr>preds := clip (preds out)\<rparr>)))"

subsection \<open>Metric summary\<close>

record stats =
  r2_mean :: real
  r2_min :: real
  r2_max :: real
  rmse_mean :: real
  rmse_min :: real
  rmse_max :: real
  robust_pct :: real

text \<open>\<^verbatim>\<open>a[~np.isnan(a)]\<close>\<close>

definition not_nan :: "real option list \<Rightarrow> real list" where
  "not_nan a = concat (map (\<lambda>v. case v of Some x \<Rightarrow> [x] | None \<Rightarrow> []) a)"

text \<open>
  The three log lines. On an empty array \<^verbatim>\<open>.mean()\<close> warns and returns NaN, and the
  \<^verbatim>\<open>.min()\<close> that follows it in the same format string raises numpy's ValueError.
\<close>

definition zero_size :: error where
  "zero_size = ValueError ''zero-size array to reduction operation minimum which has no identity''"

definition log_metrics :: "real option list \<Rightarrow> real option list \<Rightarrow> error + stats" where
  "log_metrics r2 rmse =
     (let vr2 = not_nan r2; vrm = not_nan rmse
      in if vr2 = [] then Inl zero_size
         else if vrm = [] then Inl zero_size
         else Inr \<lparr>r2_mean = np_mean vr2, r2_min = np_min vr2, r2_max = np_max vr2,
                   rmse_mean = np_mean vrm, rmse_min = np_min vrm, rmse_max = np_max vrm,
                   robust_pct = 100 * real (length (filter (\<lambda>v. v \<ge> 0.7) vr2))
                                  / real (length vr2)\<rparr>)"

subsection \<open>The algorithm\<close>

text \<open>
  \<open>rasters\<close> are the valid input layers in the order supplied, \<open>future_years\<close> the
  integers parsed from the comma-separated parameter. The scatter plot (a random sample)
  and the writing of the output files are left to the caller: the result is the clipped
  prediction layers with their shape and the logged statistics.
\<close>

definition processAlgorithm ::
  "sklearn \<Rightarrow> (nat \<Rightarrow> bool) \<Rightarrow> raster list \<Rightarrow> int list \<Rightarrow> model_name \<Rightarrow> norm_name
     \<Rightarrow> error + (nat \<times> nat \<times> real list list \<times> stats)" where
  "processAlgorithm sk isCanceled rasters future_years m nrm =
     (if length rasters < 2
      then Inl (QgsProcessingException ''Please select at least 2 input rasters.'')
      else if future_years = []
      then Inl (QgsProcessingException ''No valid future years provided.'')
      else case fit_and_forecast sk isCanceled rasters future_years m nrm of
             Inl e \<Rightarrow> Inl e
           | Inr (H, W, out) \<Rightarrow>
               (case log_metrics (r2_vals out) (rmse_vals out) of
                  Inl e \<Rightarrow> Inl e
                | Inr st \<Rightarrow> Inr (H, W, preds out, st)))"

subsection \<open>The least-squares contract and a closed-form library instance\<close>

text \<open>
  \<^verbatim>\<open>LinearRegression\<close> is documented to return coefficients that minimise the residual
  sum of squares between the targets and the linear prediction. \<open>least_squares_on f X y\<close>
  says that \<open>f\<close> meets this contract on the training set \<open>(X, y)\<close>.
\<close>

definition sse :: "linmodel \<Rightarrow> real list list \<Rightarrow> real list \<Rightarrow> real" where
  "sse mdl X y = sum_list (map2 (\<lambda>row t. (predict_row mdl row - t)\<^sup>2) X y)"

definition least_squares_on :: "fit_fn \<Rightarrow> real list list \<Rightarrow> real list \<Rightarrow> bool" where
  "least_squares_on f X y = (\<forall>mdl. sse (f X y) X y \<le> sse mdl X y)"

text \<open>
  The closed forms of the three estimators on a design matrix of one column (the shape
  that the Linear, Ridge and Lasso kinds pass), with the library's default penalty
  \<open>alpha = 1\<close> for Ridge and Lasso. They are the concrete library of the examples below.
\<close>

definition centred_sums :: "real list list \<Rightarrow> real list \<Rightarrow> real \<times> real \<times> real \<times> real" where
  "centred_sums X y =
     (let xs = map hd X;
          x_bar = np_mean xs;
          y_bar = np_mean y;
          sxx = sum_list (map (\<lambda>x. (x - x_bar)\<^sup>2) xs);
          sxy = sum_list (map2 (\<lambda>x t. (x - x_bar) * (t - y_bar)) xs y)
      in (x_bar, y_bar, sxx, sxy))"

definition ols1 :: fit_fn where
  "ols1 X y =
     (case centred_sums X y of (x_bar, y_bar, sxx, sxy) \<Rightarrow>
        (let b = (if sxx = 0 then 0 else sxy / sxx)
         in \<lparr>coef = [b], intercept = y_bar - b * x_bar\<rparr>))"

definition ridge1 :: fit_fn where
  "ridge1 X y =
     (case centred_sums X y of (x_bar, y_bar, sxx, sxy) \<Rightarrow>
        (let b = sxy / (sxx + 1)
         in \<lparr>coef = [b], intercept = y_bar - b * x_bar\<rparr>))"

definition soft_threshold :: "real \<Rightarrow> real \<Rightarrow> real" where
  "soft_threshold z t = (if z > t then z - t else if z < - t then z + t else 0)"

definition lasso1 :: fit_fn where
  "lasso1 X y =
     (case centred_sums X y of (x_bar, y_bar, sxx, sxy) \<Rightarrow>
        (let b = (if sxx = 0 then 0 else soft_threshold sxy (real (length y) * 1) / sxx)
         in \<lparr>coef = [b], intercept = y_bar - b * x_bar\<rparr>))"

definition closed_form_sklearn :: sklearn where
  "closed_form_sklearn =
     \<lparr>LinearRegression_fit = ols1, Ridge_fit = ridge1, Lasso_fit = lasso1\<rparr>"

subsection \<open>Names used in the statements\<close>

abbreviation layers :: "raster list \<Rightarrow> real list list" where
  "layers rasters \<equiv> map flat (map band1 rasters)"

text \<open>The validity mask that \<open>fit_and_forecast\<close> computes for a grid of \<open>n\<close> pixels.\<close>

abbreviation mask_of :: "raster list \<Rightarrow> nat \<Rightarrow> bool list" where
  "mask_of rasters n \<equiv> valid_mask (layers rasters) n (nodata (hd rasters))"

definition never :: "nat \<Rightarrow> bool" where
  "never idx = False"

text \<open>Scenario A: two 2 by 2 grids, all 1 and all 2, no NoData value.\<close>

definition scenario_A :: "raster list" where
  "scenario_A =
     [\<lparr>nodata = None, band1 = \<lparr>nrows = 2, ncols = 2, flat = [1, 1, 1, 1]\<rparr>\<rparr>,
      \<lparr>nodata = None, band1 = \<lparr>nrows = 2, ncols = 2, flat = [2, 2, 2, 2]\<rparr>\<rparr>]"

text \<open>Scenario B: two 1 by 2 grids; the first pixel holds the NoData value of the first
  raster, the second pixel holds the NoData value of the second raster only.\<close>

definition scenario_B :: "raster list" where
  "scenario_B =
     [\<lparr>nodata = Some (- 1), band1 = \<lparr>nrows = 1, ncols = 2, flat = [- 1, 1]\<rparr>\<rparr>,
      \<lparr>nodata = Some 2, band1 = \<lparr>nrows = 1, ncols = 2, flat = [5, 2]\<rparr>\<rparr>]"

definition outputs_B :: outputs where
  "outputs_B = \<lparr>preds = [[0, 3]], r2_vals = [None, Some 1], rmse_vals = [None, Some 0]\<rparr>"

text \<open>A falling series: two 1 by 1 grids holding 2 and then 1, no NoData value.\<close>

definition scenario_falling :: "raster list" where
  "scenario_falling =
     [\<lparr>nodata = None, band1 = \<lparr>nrows = 1, ncols = 1, flat = [2]\<rparr>\<rparr>,
      \<lparr>nodata = None, band1 = \<lparr>nrows = 1, ncols = 1, flat = [1]\<rparr>\<rparr>]"

text \<open>A cancellation signal that is raised at poll \<open>k\<close> and stays raised.\<close>

definition canceled_from :: "nat \<Rightarrow> nat \<Rightarrow> bool" where
  "canceled_from k idx = (k \<le> idx)"

definition outputs_canceled :: outputs where
  "outputs_canceled =
     \<lparr>preds = [[3, 0, 0, 0]], r2_vals = [Some 1, None, None, None],
      rmse_vals = [Some 0, None, None, None]\<rparr>"

text \<open>A run in which no pixel is valid: the only pixel holds the NoData value.\<close>

definition scenario_all_nodata :: "raster list" where
  "scenario_all_nodata =
     [\<lparr>nodata = Some (- 1), band1 = \<lparr>nrows = 1, ncols = 1, flat = [- 1]\<rparr>\<rparr>,
      \<lparr>nodata = Some (- 1), band1 = \<lparr>nrows = 1, ncols = 1, flat = [4]\<rparr>\<rparr>]"

definition outputs_untouched :: outputs where
  "outputs_untouched = \<lparr>preds = [[0]], r2_vals = [None], rmse_vals = [None]\<rparr>"

text \<open>Scenario B with the NoData value of the second raster removed.\<close>

definition scenario_B_later_nodata_dropped :: "raster list" where
  "scenario_B_later_nodata_dropped =
     [\<lparr>nodata = Some (- 1), band1 = \<lparr>nrows = 1, ncols = 2, flat = [- 1, 1]\<rparr>\<rparr>,
      \<lparr>nodata = None, band1 = \<lparr>nrows = 1, ncols = 2, flat = [5, 2]\<rparr>\<rparr>]"

definition outputs_A :: outputs where
  "outputs_A =
     \<lparr>preds = [[3, 3, 3, 3]], r2_vals = [Some 1, Some 1, Some 1, Some 1],
      rmse_vals = [Some 0, Some 0, Some 0, Some 0]\<rparr>"

section \<open>Auxiliary facts\<close>

lemma pixel_loop_fold:
  "pixel_loop c v b idxs out =
     fold (\<lambda>i. store i (b i)) (filter (\<lambda>i. v ! i) (takeWhile (\<lambda>i. \<not> c i) idxs)) out"
  by (induction idxs arbitrary: out) auto

lemma fold_update_nth:
  "j < length xs \<Longrightarrow>
   fold (\<lambda>i ys. ys[i := f i]) is xs ! j = (if j \<in> set is then f j else xs ! j)"
proof (induction "is" arbitrary: xs)
  case Nil
  then show ?case by simp
next
  case (Cons i "is")
  then show ?case by (cases "i = j") auto
qed

lemma fold_update_length [simp]:
  "length (fold (\<lambda>i ys. ys[i := f i]) is xs) = length xs"
  by (induction "is" arbitrary: xs) auto

lemma store_sel:
  "preds (store i r out) = map2 (\<lambda>row p. row[i := p]) (preds out) (fst r)"
  "r2_vals (store i r out) = (r2_vals out)[i := Some (fst (snd r))]"
  "rmse_vals (store i r out) = (rmse_vals out)[i := Some (snd (snd r))]"
  by (simp_all add: store_def split: prod.splits)

lemma r2_vals_fold:
  "r2_vals (fold (\<lambda>i. store i (b i)) is out) =
     fold (\<lambda>i ys. ys[i := Some (fst (snd (b i)))]) is (r2_vals out)"
  by (induction "is" arbitrary: out) (simp_all add: store_sel)

lemma rmse_vals_fold:
  "rmse_vals (fold (\<lambda>i. store i (b i)) is out) =
     fold (\<lambda>i ys. ys[i := Some (snd (snd (b i)))]) is (rmse_vals out)"
  by (induction "is" arbitrary: out) (simp_all add: store_sel)

lemma preds_fold_length:
  "\<forall>i. length (fst (b i)) = n \<Longrightarrow> length (preds out) = n \<Longrightarrow>
   length (preds (fold (\<lambda>i. store i (b i)) is out)) = n"
  by (induction "is" arbitrary: out) (simp_all add: store_sel)

lemma preds_fold_nth:
  "\<forall>i. length (fst (b i)) = n \<Longrightarrow> length (preds out) = n \<Longrightarrow> k < n \<Longrightarrow>
   preds (fold (\<lambda>i. store i (b i)) is out) ! k =
     fold (\<lambda>i row. row[i := fst (b i) ! k]) is (preds out ! k)"
proof (induction "is" arbitrary: out)
  case Nil
  then show ?case by simp
next
  case (Cons i "is")
  have len: "length (preds (store i (b i) out)) = n"
    using Cons.prems by (simp add: store_sel)
  have nth: "preds (store i (b i) out) ! k = (preds out ! k)[i := fst (b i) ! k]"
    using Cons.prems by (simp add: store_sel)
  show ?case using Cons.IH[OF Cons.prems(1) len Cons.prems(3)] nth by simp
qed

lemma takeWhile_upt:
  assumes "k \<le> n" "\<forall>i<k. \<not> c i" "k < n \<longrightarrow> c k"
  shows "takeWhile (\<lambda>i. \<not> c i) [0..<n] = [0..<k]"
proof -
  have split: "[0..<n] = [0..<k] @ [k..<n]"
    using assms(1) by (metis le_add_diff_inverse upt_add_eq_append zero_le)
  have tl: "takeWhile (\<lambda>i. \<not> c i) [k..<n] = []"
    using assms(3) by (cases "k < n") (auto simp: upt_conv_Cons)
  have "takeWhile (\<lambda>i. \<not> c i) ([0..<k] @ [k..<n]) = [0..<k] @ takeWhile (\<lambda>i. \<not> c i) [k..<n]"
    using assms(2) by (intro takeWhile_append2) simp
  then show ?thesis using split tl by simp
qed


lemma init_outputs_sel [simp]:
  "preds (init_outputs nf n) = replicate nf (replicate n 0)"
  "r2_vals (init_outputs nf n) = replicate n None"
  "rmse_vals (init_outputs nf n) = replicate n None"
  by (simp_all add: init_outputs_def)

lemma fit_pixel_sel:
  "fst (fit_pixel sk m nrm X F y) =
     denormalize (fst (normalize_series nrm y))
       (predict (select_model sk m X (snd (normalize_series nrm y))) F)"
  "fst (snd (fit_pixel sk m nrm X F y)) =
     score (select_model sk m X (snd (normalize_series nrm y))) X (snd (normalize_series nrm y))"
  "snd (snd (fit_pixel sk m nrm X F y)) =
     rms (map2 (\<lambda>p a. p - a)
       (denormalize (fst (normalize_series nrm y))
          (predict (select_model sk m X (snd (normalize_series nrm y))) X)) y)"
  by (simp_all add: fit_pixel_def Let_def split: prod.splits)

lemma denormalize_length [simp]: "length (denormalize sc v) = length v"
  by (cases sc; simp add: denormalize_def) (metis inverse_transform.simps length_map scaler.exhaust)

lemma predict_length [simp]: "length (predict mdl X) = length X"
  by (simp add: predict_def)

lemma fit_pixel_length: "length (fst (fit_pixel sk m nrm X F y)) = length F"
  by (simp add: fit_pixel_sel)

lemma expand_features_length:
  "length (fst (expand_features m Y F)) = length Y"
  "length (snd (expand_features m Y F)) = length F"
  by (simp_all add: expand_features_def poly_transform_def Let_def)

lemma column_length [simp]: "length (column xs) = length xs"
  by (simp add: column_def)

lemma loop_r2:
  assumes "idx < n"
  shows "r2_vals (pixel_loop c V body [0..<n] (init_outputs nf n)) ! idx =
     (if idx \<in> set (takeWhile (\<lambda>i. \<not> c i) [0..<n]) \<and> V ! idx
      then Some (fst (snd (body idx))) else None)"
  using assms by (simp add: pixel_loop_fold r2_vals_fold fold_update_nth)

lemma loop_rmse:
  assumes "idx < n"
  shows "rmse_vals (pixel_loop c V body [0..<n] (init_outputs nf n)) ! idx =
     (if idx \<in> set (takeWhile (\<lambda>i. \<not> c i) [0..<n]) \<and> V ! idx
      then Some (snd (snd (body idx))) else None)"
  using assms by (simp add: pixel_loop_fold rmse_vals_fold fold_update_nth)

lemma loop_metric_length [simp]:
  "length (r2_vals (pixel_loop c V body idxs out)) = length (r2_vals out)"
  "length (rmse_vals (pixel_loop c V body idxs out)) = length (rmse_vals out)"
  by (simp_all add: pixel_loop_fold r2_vals_fold rmse_vals_fold)

lemma loop_preds_length:
  assumes "\<forall>i. length (fst (body i)) = nf"
  shows "length (preds (pixel_loop c V body idxs (init_outputs nf n))) = nf"
  using assms by (simp add: pixel_loop_fold preds_fold_length)

lemma loop_preds:
  assumes "\<forall>i. length (fst (body i)) = nf" "k < nf" "idx < n"
  shows "preds (pixel_loop c V body [0..<n] (init_outputs nf n)) ! k ! idx =
     (if idx \<in> set (takeWhile (\<lambda>i. \<not> c i) [0..<n]) \<and> V ! idx
      then fst (body idx) ! k else 0)"
    and "length (preds (pixel_loop c V body [0..<n] (init_outputs nf n)) ! k) = n"
  using assms by (simp_all add: pixel_loop_fold preds_fold_nth[where n = nf] fold_update_nth)

lemma fit_and_forecast_out:
  assumes "fit_and_forecast sk c rasters fy m nrm = Inr (H, W, out)"
  shows "out = (let XF = expand_features m (years (length rasters)) (column fy);
                    D = map flat (map band1 rasters);
                    lp = pixel_loop c (valid_mask D (H * W) (nodata (hd rasters)))
                          (\<lambda>idx. fit_pixel sk m nrm (fst XF) (snd XF) (series D idx))
                          [0..<H * W] (init_outputs (length fy) (H * W))
                in lp\<lparr>preds := clip (preds lp)\<rparr>)"
  using assms
  by (auto simp: fit_and_forecast_def np_stack_def Let_def split: list.splits if_splits prod.splits)

lemma years_2: "years 2 = [[2013], [2014]]"
  by (simp add: years_def np_arange_def column_def upto_rec1)

lemma sse_nonneg: "0 \<le> sse mdl X y"
  unfolding sse_def by (rule sum_list_nonneg) (auto simp: in_set_zip)

lemma interpolating_line:
  assumes "least_squares_on f [[2013], [2014]] [1, 2]"
  defines "m0 \<equiv> f [[2013], [2014]] [1, 2]"
  shows "predict_row m0 [2013] = 1" "predict_row m0 [2014] = 2" "predict_row m0 [2015] = 3"
proof -
  have "sse m0 [[2013], [2014]] [1, 2] \<le> sse \<lparr>coef = [1], intercept = - 2012\<rparr> [[2013], [2014]] [1, 2]"
    using assms by (simp add: least_squares_on_def)
  also have "\<dots> = 0" by (simp add: sse_def predict_row_def)
  finally have le: "(predict_row m0 [2013] - 1)\<^sup>2 + (predict_row m0 [2014] - 2)\<^sup>2 \<le> 0"
    by (simp add: sse_def)
  have p1: "predict_row m0 [2013] = 1" and p2: "predict_row m0 [2014] = 2"
    using le by (simp_all add: sum_power2_le_zero_iff)
  show "predict_row m0 [2013] = 1" "predict_row m0 [2014] = 2" by (rule p1, rule p2)
  show "predict_row m0 [2015] = 3"
  proof (cases "coef m0")
    case Nil
    then show ?thesis using p1 p2 by (simp add: predict_row_def)
  next
    case (Cons b bs)
    then show ?thesis using p1 p2 by (simp add: predict_row_def)
  qed
qed

section \<open>Scenario A\<close>

text \<open>
  C1. Two 2 by 2 grids (all cells 1, then all cells 2) observed at 2013 and 2014, no NoData
  value, model Linear, no normalization, one future year 2015, no cancellation: for every
  regression library whose \<^verbatim>\<open>LinearRegression\<close> minimises the residual sum of squares
  on the two observations, every cell of the prediction grid is 3 and every cell of the
  R-squared grid is 1 (and every RMSE is 0).
\<close>

theorem scenario_A_forecast:
  assumes "least_squares_on (LinearRegression_fit sk) (years 2) [1, 2]"
  shows "fit_and_forecast sk never scenario_A [2015] Linear NoNorm =
     Inr (2, 2, \<lparr>preds = [[3, 3, 3, 3]],
                 r2_vals = [Some 1, Some 1, Some 1, Some 1],
                 rmse_vals = [Some 0, Some 0, Some 0, Some 0]\<rparr>)"
proof -
  note ip = interpolating_line[OF assms[unfolded years_2]]
  have fp: "fit_pixel sk Linear NoNorm [[2013], [2014]] [[2015]] [1, 2] = ([3], 1, 0)"
    by (simp add: fit_pixel_def normalize_series_def select_model_def predict_def denormalize_def
        score_def r2_score_def np_mean_def rms_def ip Let_def)
  have y2: "years (Suc (Suc 0)) = [[2013], [2014]]"
    using years_2 by (simp add: numeral_2_eq_2)
  show ?thesis
    by (simp add: fit_and_forecast_def scenario_A_def np_stack_def same_shape_def y2
        valid_mask_def expand_features_def column_def series_def init_outputs_def
        store_def clip_def never_def fp upt_rec Let_def numeral_eq_Suc)
qed


text \<open>The closed-form library meets the contract on this data, and gives that result.\<close>

lemma ols1_scenario: "ols1 [[2013], [2014]] [1, 2] = \<lparr>coef = [1], intercept = - 2012\<rparr>"
  by (simp add: ols1_def centred_sums_def np_mean_def Let_def power2_eq_square)

lemma ols1_least_squares_A: "least_squares_on ols1 (years 2) [1, 2]"
proof -
  have "sse (ols1 [[2013], [2014]] [1, 2]) [[2013], [2014]] [1, 2] = 0"
    by (simp add: ols1_scenario sse_def predict_row_def)
  then show ?thesis
    by (simp add: least_squares_on_def years_2 sse_nonneg)
qed

theorem scenario_A_forecast_witness:
  "least_squares_on (LinearRegression_fit closed_form_sklearn) (years 2) [1, 2] \<and>
   fit_and_forecast closed_form_sklearn never scenario_A [2015] Linear NoNorm =
     Inr (2, 2, \<lparr>preds = [[3, 3, 3, 3]],
                 r2_vals = [Some 1, Some 1, Some 1, Some 1],
                 rmse_vals = [Some 0, Some 0, Some 0, Some 0]\<rparr>)"
proof -
  have h: "least_squares_on (LinearRegression_fit closed_form_sklearn) (years 2) [1, 2]"
    by (simp add: closed_form_sklearn_def ols1_least_squares_A)
  show ?thesis using h scenario_A_forecast[OF h] by simp
qed

lemma years_SS: "years (Suc (Suc 0)) = [[2013], [2014]]"
  using years_2 by (simp add: numeral_2_eq_2)

lemma fit_pixel_closed_form_line:
  "fit_pixel closed_form_sklearn Linear NoNorm [[2013], [2014]] [[2015]] [1, 2] = ([3], 1, 0)"
  by (simp add: fit_pixel_def normalize_series_def select_model_def closed_form_sklearn_def
      ols1_scenario predict_def predict_row_def denormalize_def score_def r2_score_def
      np_mean_def rms_def Let_def)

lemma scenario_B_run:
  "fit_and_forecast closed_form_sklearn never scenario_B [2015] Linear NoNorm =
     Inr (1, 2, outputs_B)"
  by (simp add: fit_and_forecast_def scenario_B_def outputs_B_def np_stack_def same_shape_def
      years_SS valid_mask_def expand_features_def column_def series_def init_outputs_def
      store_def clip_def never_def fit_pixel_closed_form_line upt_rec Let_def numeral_eq_Suc)

lemma valid_mask_nth:
  assumes "idx < n"
  shows "valid_mask D n nd ! idx \<longleftrightarrow>
           (\<forall>s. nd = Some s \<longrightarrow> (\<forall>t<length D. D ! t ! idx \<noteq> s))"
proof (cases nd)
  case None
  then show ?thesis using assms by (simp add: valid_mask_def)
next
  case (Some s)
  have "list_ex (\<lambda>v. v = s) (series D idx) \<longleftrightarrow> (\<exists>t<length D. D ! t ! idx = s)"
  proof
    assume "list_ex (\<lambda>v. v = s) (series D idx)"
    then obtain layer where "layer \<in> set D" "layer ! idx = s"
      by (auto simp: list_ex_iff series_def)
    then show "\<exists>t<length D. D ! t ! idx = s"
      by (auto simp: in_set_conv_nth)
  next
    assume "\<exists>t<length D. D ! t ! idx = s"
    then obtain t where "t < length D" "D ! t ! idx = s" by blast
    then have "D ! t \<in> set D" "(D ! t) ! idx = s" by simp_all
    then show "list_ex (\<lambda>v. v = s) (series D idx)"
      unfolding list_ex_iff series_def by force
  qed
  then show ?thesis using assms Some by (auto simp: valid_mask_def)
qed

lemma fit_and_forecast_body_length:
  "length (fst (fit_pixel sk m nrm (fst (expand_features m Y (column fy)))
       (snd (expand_features m Y (column fy))) y)) = length fy"
  by (simp add: fit_pixel_length expand_features_length)

lemma clip_nth:
  "k < length p \<Longrightarrow> idx < length (p ! k) \<Longrightarrow> clip p ! k ! idx = max (p ! k ! idx) 0"
  by (simp add: clip_def)

lemma fit_and_forecast_preds:
  assumes run: "fit_and_forecast sk c rasters fy m nrm = Inr (H, W, out)"
      and k: "k < length fy" and idx: "idx < H * W"
  shows "preds out ! k ! idx =
     max (if idx \<in> set (takeWhile (\<lambda>i. \<not> c i) [0..<H * W]) \<and> mask_of rasters (H * W) ! idx
          then fst (fit_pixel sk m nrm
                 (fst (expand_features m (years (length rasters)) (column fy)))
                 (snd (expand_features m (years (length rasters)) (column fy)))
                 (series (layers rasters) idx)) ! k
          else 0) 0"
proof -
  let ?XF = "expand_features m (years (length rasters)) (column fy)"
  let ?body = "\<lambda>idx. fit_pixel sk m nrm (fst ?XF) (snd ?XF) (series (layers rasters) idx)"
  let ?lp = "pixel_loop c (mask_of rasters (H * W)) ?body [0..<H * W]
               (init_outputs (length fy) (H * W))"
  have len: "\<forall>i. length (fst (?body i)) = length fy"
    by (simp add: fit_and_forecast_body_length)
  have out: "preds out = clip (preds ?lp)"
    using fit_and_forecast_out[OF run] by (simp add: Let_def)
  have l1: "length (preds ?lp) = length fy"
    using len by (rule loop_preds_length)
  have l2: "length (preds ?lp ! k) = H * W"
    using loop_preds(2)[OF len k idx] .
  show ?thesis
    using loop_preds(1)[OF len k idx] l1 l2 k idx by (simp add: out clip_nth)
qed

lemma fit_and_forecast_r2:
  assumes run: "fit_and_forecast sk c rasters fy m nrm = Inr (H, W, out)"
      and idx: "idx < H * W"
  shows "r2_vals out ! idx =
     (if idx \<in> set (takeWhile (\<lambda>i. \<not> c i) [0..<H * W]) \<and> mask_of rasters (H * W) ! idx
      then Some (fst (snd (fit_pixel sk m nrm
                 (fst (expand_features m (years (length rasters)) (column fy)))
                 (snd (expand_features m (years (length rasters)) (column fy)))
                 (series (layers rasters) idx))))
      else None)"
  using fit_and_forecast_out[OF run] loop_r2[OF idx] by (simp add: Let_def)

lemma fit_and_forecast_rmse:
  assumes run: "fit_and_forecast sk c rasters fy m nrm = Inr (H, W, out)"
      and idx: "idx < H * W"
  shows "rmse_vals out ! idx =
     (if idx \<in> set (takeWhile (\<lambda>i. \<not> c i) [0..<H * W]) \<and> mask_of rasters (H * W) ! idx
      then Some (snd (snd (fit_pixel sk m nrm
                 (fst (expand_features m (years (length rasters)) (column fy)))
                 (snd (expand_features m (years (length rasters)) (column fy)))
                 (series (layers rasters) idx))))
      else None)"
  using fit_and_forecast_out[OF run] loop_rmse[OF idx] by (simp add: Let_def)

section \<open>Validity mask and skipped pixels\<close>

text \<open>
  C2. In a completed run, a pixel is marked valid exactly when none of the values of its
  series equals the NoData value read from the first raster (every pixel when there is
  none); and an invalid pixel is never fitted: its cell is 0 in every clipped prediction
  layer, and its R-squared and RMSE cells keep their initial NaN.
\<close>

theorem invalid_pixels_skipped:
  assumes run: "fit_and_forecast sk c rasters fy m nrm = Inr (H, W, out)"
      and idx: "idx < H * W"
  shows "(mask_of rasters (H * W) ! idx \<longleftrightarrow>
            (\<forall>s. nodata (hd rasters) = Some s \<longrightarrow>
               (\<forall>t<length rasters. flat (band1 (rasters ! t)) ! idx \<noteq> s))) \<and>
         (\<not> mask_of rasters (H * W) ! idx \<longrightarrow>
            (\<forall>k<length fy. preds out ! k ! idx = 0) \<and>
            r2_vals out ! idx = None \<and> rmse_vals out ! idx = None)"
proof (intro conjI impI)
  show "mask_of rasters (H * W) ! idx \<longleftrightarrow>
          (\<forall>s. nodata (hd rasters) = Some s \<longrightarrow>
             (\<forall>t<length rasters. flat (band1 (rasters ! t)) ! idx \<noteq> s))"
    using valid_mask_nth[OF idx, of "layers rasters" "nodata (hd rasters)"] by simp
next
  assume inv: "\<not> mask_of rasters (H * W) ! idx"
  show "\<forall>k<length fy. preds out ! k ! idx = 0"
    using fit_and_forecast_preds[OF run _ idx] inv by simp
  show "r2_vals out ! idx = None"
    using fit_and_forecast_r2[OF run idx] inv by simp
  show "rmse_vals out ! idx = None"
    using fit_and_forecast_rmse[OF run idx] inv by simp
qed

theorem invalid_pixels_skipped_witness:
  "fit_and_forecast closed_form_sklearn never scenario_B [2015] Linear NoNorm =
     Inr (1, 2, outputs_B) \<and> (0::nat) < 1 * 2 \<and>
   \<not> mask_of scenario_B (1 * 2) ! 0 \<and>
   preds outputs_B ! 0 ! 0 = 0 \<and> r2_vals outputs_B ! 0 = None \<and> rmse_vals outputs_B ! 0 = None \<and>
   mask_of scenario_B (1 * 2) ! 1"
proof -
  have i0: "(0::nat) < 1 * 2" by simp
  have m0: "\<not> mask_of scenario_B (1 * 2) ! 0"
    by (simp add: scenario_B_def valid_mask_def series_def upt_rec numeral_eq_Suc)
  have m1: "mask_of scenario_B (1 * 2) ! 1"
    by (simp add: scenario_B_def valid_mask_def series_def upt_rec numeral_eq_Suc)
  show ?thesis
    using invalid_pixels_skipped[OF scenario_B_run i0] m0 m1 scenario_B_run
    by (simp add: outputs_B_def)
qed

lemma visited_iff:
  "idx \<in> set (takeWhile (\<lambda>i. \<not> c i) [0..<n]) \<longleftrightarrow> idx < n \<and> (\<forall>i\<le>idx. \<not> c i)"
proof (induction n)
  case 0
  then show ?case by simp
next
  case (Suc n)
  show ?case
  proof (cases "\<forall>i<n. \<not> c i")
    case True
    then have "takeWhile (\<lambda>i. \<not> c i) ([0..<n] @ [n]) = [0..<n] @ takeWhile (\<lambda>i. \<not> c i) [n]"
      by (intro takeWhile_append2) simp
    then show ?thesis using True by (auto simp: less_Suc_eq le_less)
  next
    case False
    then obtain j where j: "j < n" "c j" by blast
    then have "takeWhile (\<lambda>i. \<not> c i) ([0..<n] @ [n]) = takeWhile (\<lambda>i. \<not> c i) [0..<n]"
      by (intro takeWhile_append1[of j]) simp_all
    then show ?thesis using Suc.IH j by (auto simp: less_Suc_eq)
  qed
qed

lemma fit_and_forecast_lengths:
  assumes run: "fit_and_forecast sk c rasters fy m nrm = Inr (H, W, out)"
  shows "length (preds out) = length fy"
    and "length (r2_vals out) = H * W"
    and "length (rmse_vals out) = H * W"
    and "k < length fy \<Longrightarrow> length (preds out ! k) = H * W"
proof -
  let ?XF = "expand_features m (years (length rasters)) (column fy)"
  let ?body = "\<lambda>idx. fit_pixel sk m nrm (fst ?XF) (snd ?XF) (series (layers rasters) idx)"
  let ?lp = "pixel_loop c (mask_of rasters (H * W)) ?body [0..<H * W]
               (init_outputs (length fy) (H * W))"
  have len: "\<forall>i. length (fst (?body i)) = length fy"
    by (simp add: fit_and_forecast_body_length)
  have out: "out = ?lp\<lparr>preds := clip (preds ?lp)\<rparr>"
    using fit_and_forecast_out[OF run] by (simp add: Let_def)
  have po: "preds out = clip (preds ?lp)"
    and ro: "r2_vals out = r2_vals ?lp" and mo: "rmse_vals out = rmse_vals ?lp"
    using out by simp_all
  have l1: "length (preds ?lp) = length fy"
    using len by (rule loop_preds_length)
  show "length (preds out) = length fy"
    using l1 by (simp add: po clip_def)
  show "length (r2_vals out) = H * W" "length (rmse_vals out) = H * W"
    by (simp_all add: ro mo)
  show "length (preds out ! k) = H * W" if k: "k < length fy"
  proof -
    have "length (preds ?lp ! k) = H * W"
    proof (cases "H * W")
      case 0
      have "pixel_loop c (mask_of rasters 0) ?body [] (init_outputs (length fy) 0) =
              init_outputs (length fy) 0"
        by simp
      then show ?thesis using k 0 by simp
    next
      case (Suc n')
      then have "0 < H * W" by simp
      from loop_preds(2)[OF len k this] show ?thesis .
    qed
    then show ?thesis using k l1 by (simp add: po clip_def)
  qed
qed

section \<open>Non-negative predictions\<close>

text \<open>
  C3. After the clip, every prediction layer has one cell per pixel and every cell is at
  least 0, for every regression library, input, mask, model, normalization and
  cancellation pattern.
\<close>

theorem predictions_nonnegative:
  assumes run: "fit_and_forecast sk c rasters fy m nrm = Inr (H, W, out)"
  shows "length (preds out) = length fy \<and>
         (\<forall>k<length fy. length (preds out ! k) = H * W \<and>
            (\<forall>idx<H * W. 0 \<le> preds out ! k ! idx))"
proof (intro conjI allI impI)
  show "length (preds out) = length fy"
    using fit_and_forecast_lengths(1)[OF run] .
next
  fix k assume k: "k < length fy"
  show "length (preds out ! k) = H * W"
    using fit_and_forecast_lengths(4)[OF run k] .
next
  fix k idx assume k: "k < length fy" and idx: "idx < H * W"
  show "0 \<le> preds out ! k ! idx"
    by (subst fit_and_forecast_preds[OF run k idx]) simp
qed

lemma ols1_falling: "ols1 [[2013], [2014]] [2, 1] = \<lparr>coef = [- 1], intercept = 2015\<rparr>"
  by (simp add: ols1_def centred_sums_def np_mean_def Let_def power2_eq_square)

lemma fit_pixel_falling:
  "fit_pixel closed_form_sklearn Linear NoNorm [[2013], [2014]] [[2016]] [2, 1] = ([- 1], 1, 0)"
  by (simp add: fit_pixel_def normalize_series_def select_model_def closed_form_sklearn_def
      ols1_falling predict_def predict_row_def denormalize_def score_def r2_score_def
      np_mean_def rms_def Let_def)

lemma scenario_falling_run:
  "fit_and_forecast closed_form_sklearn never scenario_falling [2016] Linear NoNorm =
     Inr (1, 1, \<lparr>preds = [[0]], r2_vals = [Some 1], rmse_vals = [Some 0]\<rparr>)"
  by (simp add: fit_and_forecast_def scenario_falling_def np_stack_def same_shape_def
      years_SS valid_mask_def expand_features_def column_def series_def init_outputs_def
      store_def clip_def never_def fit_pixel_falling upt_rec Let_def numeral_eq_Suc)

theorem predictions_nonnegative_witness:
  "fit_and_forecast closed_form_sklearn never scenario_falling [2016] Linear NoNorm =
     Inr (1, 1, \<lparr>preds = [[0]], r2_vals = [Some 1], rmse_vals = [Some 0]\<rparr>) \<and>
   fst (fit_pixel closed_form_sklearn Linear NoNorm [[2013], [2014]] [[2016]] [2, 1]) = [- 1] \<and>
   length (preds \<lparr>preds = [[0]], r2_vals = [Some 1], rmse_vals = [Some 0]\<rparr>) = length [2016 :: int] \<and>
   (0 :: real) \<le> preds \<lparr>preds = [[0]], r2_vals = [Some 1], rmse_vals = [Some 0]\<rparr> ! 0 ! 0"
  using predictions_nonnegative[OF scenario_falling_run] scenario_falling_run fit_pixel_falling
  by simp

lemma handle_zeros_in_scale_nonzero [simp]: "handle_zeros_in_scale s \<noteq> 0"
  by (simp add: handle_zeros_in_scale_def)

lemma MinMaxScaler_round_trip:
  "inverse_transform (MinMaxScaler_fit y) (transform (MinMaxScaler_fit y) xs) = xs"
proof -
  obtain sc mn where f: "MinMaxScaler_fit y = MinMaxScaler sc mn" and sc: "sc \<noteq> 0"
    by (simp add: MinMaxScaler_fit_def Let_def)
  show ?thesis
    using sc by (simp add: f comp_def)
qed

lemma StandardScaler_round_trip:
  "inverse_transform (StandardScaler_fit y) (transform (StandardScaler_fit y) xs) = xs"
proof -
  obtain mu sd where f: "StandardScaler_fit y = StandardScaler mu sd" and sd: "sd \<noteq> 0"
    by (simp add: StandardScaler_fit_def Let_def)
  show ?thesis
    using sd by (simp add: f comp_def)
qed

section \<open>Normalizer round trip\<close>

text \<open>
  C4. For each normalization kind and every series, the inverse transform that the pixel
  loop applies undoes the forward transform of the series the scaler was fitted on. A
  constant series is included: the scalers replace a zero range or a zero standard
  deviation by 1.
\<close>

theorem normalizer_round_trip:
  "denormalize (fst (normalize_series nrm y)) (snd (normalize_series nrm y)) = y"
  by (cases nrm)
     (simp_all add: normalize_series_def denormalize_def Let_def MinMaxScaler_round_trip
        StandardScaler_round_trip)

theorem normalizer_round_trip_witness:
  "denormalize (fst (normalize_series MinMax [1, 2, 4])) (snd (normalize_series MinMax [1, 2, 4])) = [1, 2, 4] \<and>
   denormalize (fst (normalize_series Zscore [5, 5, 5])) (snd (normalize_series Zscore [5, 5, 5])) = [5, 5, 5]"
  using normalizer_round_trip[of MinMax "[1, 2, 4]"] normalizer_round_trip[of Zscore "[5, 5, 5]"]
  by (rule conjI)

section \<open>Recorded metrics\<close>

lemma rms_residuals:
  "rms (map2 (\<lambda>p a. p - a) ps ys) = sqrt (np_mean (map2 (\<lambda>p a. (p - a)\<^sup>2) ps ys))"
  by (simp add: rms_def comp_def case_prod_unfold)

text \<open>
  C5. For every pixel that is valid and reached before any cancellation, the recorded
  R-squared is the coefficient of determination of the fitted model on the normalized
  series (predictions and targets both in normalized space), and the recorded RMSE is the
  root of the mean squared difference between the de-normalized in-sample predictions and
  the original series.
\<close>

theorem metrics_of_fitted_pixel:
  assumes run: "fit_and_forecast sk c rasters fy m nrm = Inr (H, W, out)"
      and idx: "idx < H * W"
      and valid: "mask_of rasters (H * W) ! idx"
      and visited: "\<forall>i\<le>idx. \<not> c i"
  shows "(let y = series (layers rasters) idx;
              X = fst (expand_features m (years (length rasters)) (column fy));
              scaler = fst (normalize_series nrm y);
              y_norm = snd (normalize_series nrm y);
              mdl = select_model sk m X y_norm
          in r2_vals out ! idx = Some (r2_score y_norm (predict mdl X)) \<and>
             rmse_vals out ! idx =
               Some (sqrt (np_mean (map2 (\<lambda>p a. (p - a)\<^sup>2)
                                      (denormalize scaler (predict mdl X)) y))))"
proof -
  have v: "idx \<in> set (takeWhile (\<lambda>i. \<not> c i) [0..<H * W])"
    using idx visited by (simp add: visited_iff)
  show ?thesis
    using fit_and_forecast_r2[OF run idx] fit_and_forecast_rmse[OF run idx] v valid
    by (simp add: Let_def fit_pixel_sel score_def rms_residuals)
qed

theorem metrics_of_fitted_pixel_witness:
  "fit_and_forecast closed_form_sklearn never scenario_B [2015] Linear NoNorm =
     Inr (1, 2, outputs_B) \<and> (1::nat) < 1 * 2 \<and> mask_of scenario_B (1 * 2) ! 1 \<and>
   \<not> never 0 \<and> \<not> never 1 \<and>
   r2_vals outputs_B ! 1 = Some 1 \<and> rmse_vals outputs_B ! 1 = Some 0"
proof -
  have i1: "(1::nat) < 1 * 2" by simp
  have m1: "mask_of scenario_B (1 * 2) ! 1"
    by (simp add: scenario_B_def valid_mask_def series_def upt_rec numeral_eq_Suc)
  have nv: "\<forall>i\<le>1. \<not> never i" by (simp add: never_def)
  show ?thesis
    using metrics_of_fitted_pixel[OF scenario_B_run i1 m1 nv] m1 scenario_B_run
    by (simp add: outputs_B_def never_def)
qed

lemma not_nan_length: "length (not_nan xs) = length (filter (\<lambda>v. v \<noteq> None) xs)"
  by (induction xs) (auto simp: not_nan_def split: option.splits)

lemma not_nan_prefix:
  assumes "\<forall>i<length xs. k \<le> i \<longrightarrow> xs ! i = None"
  shows "length (not_nan xs) \<le> k"
proof -
  have "filter (\<lambda>v. v \<noteq> None) (drop k xs) = []"
    using assms by (auto simp: filter_empty_conv in_set_conv_nth)
  then have "filter (\<lambda>v. v \<noteq> None) xs = filter (\<lambda>v. v \<noteq> None) (take k xs)"
    by (metis append_Nil2 append_take_drop_id filter_append)
  then have "length (not_nan xs) = length (filter (\<lambda>v. v \<noteq> None) (take k xs))"
    by (simp add: not_nan_length)
  also have "\<dots> \<le> length (take k xs)" by (rule length_filter_le)
  also have "\<dots> \<le> k" by simp
  finally show ?thesis .
qed

section \<open>Cancellation\<close>

text \<open>
  C8. The loop polls the cancellation signal at the start of every iteration. If the
  first poll that answers true is poll \<open>k\<close> (or no poll does and \<open>k\<close> is the number of
  pixels), exactly the pixels before \<open>k\<close> are visited: a metric cell is still NaN exactly
  when its pixel is unvisited or invalid, every unvisited pixel has prediction 0, and at
  most \<open>k\<close> R-squared cells are defined.
\<close>

theorem cancellation_leaves_defaults:
  assumes run: "fit_and_forecast sk c rasters fy m nrm = Inr (H, W, out)"
      and k: "k \<le> H * W"
      and before: "\<forall>i<k. \<not> c i"
      and at: "k < H * W \<longrightarrow> c k"
  shows "(\<forall>idx<H * W.
            (r2_vals out ! idx = None \<longleftrightarrow> k \<le> idx \<or> \<not> mask_of rasters (H * W) ! idx) \<and>
            (rmse_vals out ! idx = None \<longleftrightarrow> k \<le> idx \<or> \<not> mask_of rasters (H * W) ! idx) \<and>
            (k \<le> idx \<longrightarrow> (\<forall>j<length fy. preds out ! j ! idx = 0))) \<and>
         length (not_nan (r2_vals out)) \<le> k \<and> length (not_nan (rmse_vals out)) \<le> k"
proof -
  have tw: "takeWhile (\<lambda>i. \<not> c i) [0..<H * W] = [0..<k]"
    using k before at by (rule takeWhile_upt)
  have r2: "r2_vals out ! idx = None \<longleftrightarrow> k \<le> idx \<or> \<not> mask_of rasters (H * W) ! idx"
    if "idx < H * W" for idx
    using fit_and_forecast_r2[OF run that] by (auto simp: tw)
  have rm: "rmse_vals out ! idx = None \<longleftrightarrow> k \<le> idx \<or> \<not> mask_of rasters (H * W) ! idx"
    if "idx < H * W" for idx
    using fit_and_forecast_rmse[OF run that] by (auto simp: tw)
  have pr: "preds out ! j ! idx = 0" if "idx < H * W" "k \<le> idx" "j < length fy" for idx j
    using fit_and_forecast_preds[OF run that(3) that(1)] that(2) by (simp add: tw)
  have c1: "length (not_nan (r2_vals out)) \<le> k"
    using r2 by (intro not_nan_prefix) (simp add: fit_and_forecast_lengths(2)[OF run])
  have c2: "length (not_nan (rmse_vals out)) \<le> k"
    using rm by (intro not_nan_prefix) (simp add: fit_and_forecast_lengths(3)[OF run])
  show ?thesis using r2 rm pr c1 c2 by blast
qed

lemma scenario_A_canceled_run:
  "fit_and_forecast closed_form_sklearn (canceled_from 1) scenario_A [2015] Linear NoNorm =
     Inr (2, 2, outputs_canceled)"
  by (simp add: fit_and_forecast_def scenario_A_def outputs_canceled_def np_stack_def
      same_shape_def years_SS valid_mask_def expand_features_def column_def series_def
      init_outputs_def store_def clip_def canceled_from_def fit_pixel_closed_form_line upt_rec
      Let_def numeral_eq_Suc)

theorem cancellation_leaves_defaults_witness:
  "fit_and_forecast closed_form_sklearn (canceled_from 1) scenario_A [2015] Linear NoNorm =
     Inr (2, 2, outputs_canceled) \<and> (1::nat) \<le> 2 * 2 \<and>
   \<not> canceled_from 1 0 \<and> canceled_from 1 1 \<and>
   r2_vals outputs_canceled ! 0 = Some 1 \<and> r2_vals outputs_canceled ! 1 = None \<and>
   rmse_vals outputs_canceled ! 3 = None \<and> preds outputs_canceled ! 0 ! 2 = 0 \<and>
   length (not_nan (r2_vals outputs_canceled)) \<le> 1"
proof -
  have k: "(1::nat) \<le> 2 * 2" by simp
  have before: "\<forall>i<1. \<not> canceled_from 1 i" by (simp add: canceled_from_def)
  have at: "(1::nat) < 2 * 2 \<longrightarrow> canceled_from 1 1" by (simp add: canceled_from_def)
  show ?thesis
    using cancellation_leaves_defaults[OF scenario_A_canceled_run k before at]
      scenario_A_canceled_run
    by (simp add: outputs_canceled_def canceled_from_def not_nan_def)
qed

section \<open>Feature expansion\<close>

lemma poly_row_single: "poly_row (Suc 0) [t] = [1, t, t\<^sup>2]"
  by (simp add: poly_row_def power2_eq_square)

lemma poly_transform_column:
  "poly_transform (Suc 0) (column xs) = map (\<lambda>t. [1, real_of_int t, (real_of_int t)\<^sup>2]) xs"
  by (simp add: poly_transform_def column_def poly_row_single)

lemma poly_fit_column: "obs \<noteq> [] \<Longrightarrow> poly_fit (column obs) = Suc 0"
  by (cases obs) (simp_all add: poly_fit_def column_def)

text \<open>
  C6, as the claim states it: for the Polynomial kind the expanded row of the time index
  \<open>t\<close> would be \<open>[t, t\<^sup>2]\<close>. It is not.
\<close>

theorem expand_features_square_only_counterexample:
  "fst (expand_features Polynomial (years 2) (column [2015])) \<noteq>
     [[2013, 2013\<^sup>2], [2014, 2014\<^sup>2]]"
  by (simp add: expand_features_def years_2 poly_fit_def poly_transform_def poly_row_single
      Let_def)

text \<open>
  C6, amended. For Linear, Ridge and Lasso the expansion returns the observed and the
  future year columns unchanged. For Polynomial it maps each time index \<open>t\<close>, observed or
  future, to the three-column row \<open>[1, t, t\<^sup>2]\<close>: the constant bias column, the index and
  its square. The future rows come from the basis fitted on the observed years and do not
  depend on any fit on the future years.
\<close>

theorem expand_features_kinds:
  "(m \<noteq> Polynomial \<longrightarrow> expand_features m Y F = (Y, F)) \<and>
   (obs \<noteq> [] \<longrightarrow>
      expand_features Polynomial (column obs) (column fut) =
        (map (\<lambda>t. [1, real_of_int t, (real_of_int t)\<^sup>2]) obs,
         map (\<lambda>t. [1, real_of_int t, (real_of_int t)\<^sup>2]) fut) \<and>
      snd (expand_features Polynomial (column obs) (column fut)) =
        poly_transform (poly_fit (column obs)) (column fut))"
  by (simp add: expand_features_def Let_def poly_fit_column poly_transform_column)

theorem expand_features_kinds_witness:
  "Ridge \<noteq> Polynomial \<and> expand_features Ridge [[2013], [2014]] [[2015]] = ([[2013], [2014]], [[2015]]) \<and>
   [2013, 2014 :: int] \<noteq> [] \<and>
   expand_features Polynomial (column [2013, 2014]) (column [2015]) =
     ([[1, 2013, 4052169], [1, 2014, 4056196]], [[1, 2015, 4060225]])"
  using expand_features_kinds[of Ridge "[[2013], [2014]]" "[[2015]]" "[2013, 2014]" "[2015]"]
  by simp

section \<open>Empty metric summary\<close>

text \<open>
  The log step has no guard for an empty selection and the module has no exception class for
  it. Both metric arrays are written together, so one is empty exactly when the other is, and
  that is exactly when no pixel was both valid and reached before a cancellation.
\<close>

lemma not_nan_empty_iff: "not_nan xs = [] \<longleftrightarrow> (\<forall>i<length xs. xs ! i = None)"
proof -
  have "not_nan xs = [] \<longleftrightarrow> (\<forall>v\<in>set xs. v = None)"
    by (induction xs) (auto simp: not_nan_def split: option.splits)
  then show ?thesis by (simp add: all_set_conv_all_nth)
qed

lemma scenario_all_nodata_run:
  "fit_and_forecast closed_form_sklearn never scenario_all_nodata [2015] Linear NoNorm =
     Inr (1, 1, outputs_untouched)"
  by (simp add: fit_and_forecast_def scenario_all_nodata_def outputs_untouched_def np_stack_def
      same_shape_def years_SS valid_mask_def expand_features_def column_def series_def
      init_outputs_def store_def clip_def never_def upt_rec Let_def numeral_eq_Suc)

lemma no_pixel_fitted_iff:
  assumes run: "fit_and_forecast sk c rasters fy m nrm = Inr (H, W, out)"
  shows "not_nan (r2_vals out) = [] \<longleftrightarrow>
           (\<forall>idx<H * W. \<not> (mask_of rasters (H * W) ! idx \<and> (\<forall>i\<le>idx. \<not> c i)))"
    and "not_nan (rmse_vals out) = [] \<longleftrightarrow>
           (\<forall>idx<H * W. \<not> (mask_of rasters (H * W) ! idx \<and> (\<forall>i\<le>idx. \<not> c i)))"
proof -
  have r: "r2_vals out ! idx = None \<longleftrightarrow>
             \<not> (mask_of rasters (H * W) ! idx \<and> (\<forall>i\<le>idx. \<not> c i))" if "idx < H * W" for idx
    using fit_and_forecast_r2[OF run that] that by (simp add: visited_iff)
  have q: "rmse_vals out ! idx = None \<longleftrightarrow>
             \<not> (mask_of rasters (H * W) ! idx \<and> (\<forall>i\<le>idx. \<not> c i))" if "idx < H * W" for idx
    using fit_and_forecast_rmse[OF run that] that by (simp add: visited_iff)
  show "not_nan (r2_vals out) = [] \<longleftrightarrow>
           (\<forall>idx<H * W. \<not> (mask_of rasters (H * W) ! idx \<and> (\<forall>i\<le>idx. \<not> c i)))"
    unfolding not_nan_empty_iff fit_and_forecast_lengths(2)[OF run] using r by blast
  show "not_nan (rmse_vals out) = [] \<longleftrightarrow>
           (\<forall>idx<H * W. \<not> (mask_of rasters (H * W) ! idx \<and> (\<forall>i\<le>idx. \<not> c i)))"
    unfolding not_nan_empty_iff fit_and_forecast_lengths(3)[OF run] using q by blast
qed

text \<open>
  C7, as the claim states it: when no pixel was fitted, the exception that ends the run would
  be of class \<^verbatim>\<open>EmptyResultError\<close>. A run over one pixel that carries the nodata value
  leaves both metric arrays without a defined entry and ends in numpy's
  \<^verbatim>\<open>ValueError\<close>: the class named by the claim is not the class raised.
\<close>

theorem empty_result_error_counterexample:
  "fit_and_forecast closed_form_sklearn never scenario_all_nodata [2015] Linear NoNorm =
     Inr (1, 1, outputs_untouched) \<and>
   not_nan (r2_vals outputs_untouched) = [] \<and>
   not_nan (rmse_vals outputs_untouched) = [] \<and>
   processAlgorithm closed_form_sklearn never scenario_all_nodata [2015] Linear NoNorm =
     Inl (ValueError ''zero-size array to reduction operation minimum which has no identity'') \<and>
   exception_class
     (ValueError ''zero-size array to reduction operation minimum which has no identity'') \<noteq>
     ''EmptyResultError''"
  using scenario_all_nodata_run
  by (simp add: processAlgorithm_def log_metrics_def zero_size_def outputs_untouched_def
      not_nan_def scenario_all_nodata_def Let_def)

text \<open>
  C7, amended. When the R-squared array of a completed loop has no defined entry, no pixel was
  fitted and the RMSE array has no defined entry either; the metric log then raises numpy's
  \<^verbatim>\<open>ValueError\<close> for the minimum of an empty array, and the algorithm returns that
  error to its caller; no statistics are produced.
\<close>

theorem no_fitted_pixel_raises:
  assumes run: "fit_and_forecast sk c rasters fy m nrm = Inr (H, W, out)"
      and empty: "not_nan (r2_vals out) = []"
  shows "(\<forall>idx<H * W. \<not> (mask_of rasters (H * W) ! idx \<and> (\<forall>i\<le>idx. \<not> c i))) \<and>
         not_nan (rmse_vals out) = [] \<and>
         log_metrics (r2_vals out) (rmse_vals out) = Inl zero_size \<and>
         exception_class zero_size = ''ValueError'' \<and>
         (2 \<le> length rasters \<and> fy \<noteq> [] \<longrightarrow>
            processAlgorithm sk c rasters fy m nrm = Inl zero_size)"
proof -
  have none: "\<forall>idx<H * W. \<not> (mask_of rasters (H * W) ! idx \<and> (\<forall>i\<le>idx. \<not> c i))"
    using no_pixel_fitted_iff(1)[OF run] empty by simp
  then have "not_nan (rmse_vals out) = []"
    using no_pixel_fitted_iff(2)[OF run] by simp
  moreover have "log_metrics (r2_vals out) (rmse_vals out) = Inl zero_size"
    using empty by (simp add: log_metrics_def Let_def)
  moreover have "exception_class zero_size = ''ValueError''"
    by (simp add: zero_size_def)
  moreover have "2 \<le> length rasters \<and> fy \<noteq> [] \<longrightarrow>
            processAlgorithm sk c rasters fy m nrm = Inl zero_size"
    using run empty by (simp add: log_metrics_def processAlgorithm_def Let_def)
  ultimately show ?thesis using none by blast
qed

theorem no_fitted_pixel_raises_witness:
  "fit_and_forecast closed_form_sklearn never scenario_all_nodata [2015] Linear NoNorm =
     Inr (1, 1, outputs_untouched) \<and>
   not_nan (r2_vals outputs_untouched) = [] \<and>
   2 \<le> length scenario_all_nodata \<and> [2015 :: int] \<noteq> [] \<and>
   \<not> mask_of scenario_all_nodata (1 * 1) ! 0 \<and>
   not_nan (rmse_vals outputs_untouched) = [] \<and>
   log_metrics (r2_vals outputs_untouched) (rmse_vals outputs_untouched) = Inl zero_size \<and>
   exception_class zero_size = ''ValueError'' \<and>
   processAlgorithm closed_form_sklearn never scenario_all_nodata [2015] Linear NoNorm =
     Inl zero_size"
proof -
  have e: "not_nan (r2_vals outputs_untouched) = []"
    by (simp add: outputs_untouched_def not_nan_def)
  have l: "2 \<le> length scenario_all_nodata" by (simp add: scenario_all_nodata_def)
  show ?thesis
    using no_fitted_pixel_raises[OF scenario_all_nodata_run e] scenario_all_nodata_run e l
    by (simp add: never_def)
qed

section \<open>Source of the NoData value\<close>

lemma fit_and_forecast_cong:
  assumes bands: "map band1 rs' = map band1 rs" and first: "nodata (hd rs') = nodata (hd rs)"
  shows "fit_and_forecast sk c rs' fy m nrm = fit_and_forecast sk c rs fy m nrm"
proof -
  have len: "length rs' = length rs"
    using bands by (metis length_map)
  show ?thesis
    unfolding fit_and_forecast_def by (simp only: bands first len)
qed

text \<open>
  C9. The NoData value that decides validity is the one of the first raster only. Two
  input lists with the same bands and the same NoData value on their first raster give
  the same run, whatever NoData values the other rasters declare; with no NoData value
  on the first raster every pixel is valid; and a pixel none of whose values equals the
  NoData value of the first raster is valid, even where a value equals the NoData value
  of a later raster.
\<close>

theorem nodata_from_first_raster:
  assumes bands: "map band1 rs' = map band1 rs" and first: "nodata (hd rs') = nodata (hd rs)"
  shows "fit_and_forecast sk c rs' fy m nrm = fit_and_forecast sk c rs fy m nrm \<and>
         processAlgorithm sk c rs' fy m nrm = processAlgorithm sk c rs fy m nrm \<and>
         mask_of rs' n = mask_of rs n \<and>
         (nodata (hd rs) = None \<longrightarrow> mask_of rs n = replicate n True) \<and>
         (idx < n \<and> (\<forall>s. nodata (hd rs) = Some s \<longrightarrow>
                        (\<forall>t<length rs. flat (band1 (rs ! t)) ! idx \<noteq> s))
            \<longrightarrow> mask_of rs n ! idx)"
proof (intro conjI impI)
  show ff: "fit_and_forecast sk c rs' fy m nrm = fit_and_forecast sk c rs fy m nrm"
    using bands first by (rule fit_and_forecast_cong)
  have len: "length rs' = length rs"
    using bands by (metis length_map)
  show "processAlgorithm sk c rs' fy m nrm = processAlgorithm sk c rs fy m nrm"
    unfolding processAlgorithm_def by (simp only: ff len)
  show "mask_of rs' n = mask_of rs n"
    by (simp only: bands first)
next
  assume "nodata (hd rs) = None"
  then show "mask_of rs n = replicate n True"
    by (simp add: valid_mask_def)
next
  assume a: "idx < n \<and> (\<forall>s. nodata (hd rs) = Some s \<longrightarrow>
                        (\<forall>t<length rs. flat (band1 (rs ! t)) ! idx \<noteq> s))"
  then have idx: "idx < n" by blast
  show "mask_of rs n ! idx"
    using valid_mask_nth[OF idx, of "layers rs" "nodata (hd rs)"] a by simp
qed

theorem nodata_from_first_raster_witness:
  "map band1 scenario_B_later_nodata_dropped = map band1 scenario_B \<and>
   nodata (hd scenario_B_later_nodata_dropped) = nodata (hd scenario_B) \<and>
   nodata (scenario_B ! 1) = Some 2 \<and> flat (band1 (scenario_B ! 1)) ! 1 = 2 \<and>
   mask_of scenario_B 2 ! 1 \<and>
   fit_and_forecast closed_form_sklearn never scenario_B_later_nodata_dropped [2015] Linear NoNorm =
     Inr (1, 2, outputs_B)"
proof -
  have b: "map band1 scenario_B_later_nodata_dropped = map band1 scenario_B"
    by (simp add: scenario_B_later_nodata_dropped_def scenario_B_def)
  have f: "nodata (hd scenario_B_later_nodata_dropped) = nodata (hd scenario_B)"
    by (simp add: scenario_B_later_nodata_dropped_def scenario_B_def)
  have m1: "mask_of scenario_B 2 ! 1"
    by (simp add: scenario_B_def valid_mask_def series_def upt_rec numeral_eq_Suc)
  have s: "nodata (scenario_B ! 1) = Some 2" "flat (band1 (scenario_B ! 1)) ! 1 = 2"
    by (simp_all add: scenario_B_def)
  show ?thesis
    using nodata_from_first_raster[OF b f, of closed_form_sklearn never "[2015]" Linear NoNorm]
      scenario_B_run b f m1 s
    by simp
qed

section \<open>The observed time axis\<close>

lemma upto_as_upt: "[a..a + int n - 1] = map (\<lambda>i. a + int i) [0..<n]"
proof (induction n)
  case 0
  then show ?case by simp
next
  case (Suc n)
  have "[a..a + int (Suc n) - 1] = [a..a + int n - 1] @ [a + int n]"
    using upto_rec2[of a "a + int n"] by simp
  then show ?case using Suc.IH by simp
qed

lemma years_explicit: "years n = map (\<lambda>i. [2013 + real i]) [0..<n]"
proof -
  have "np_arange 2013 (2013 + int n) = map (\<lambda>i. 2013 + int i) [0..<n]"
    unfolding np_arange_def by (rule upto_as_upt)
  then show ?thesis
    by (simp add: years_def column_def comp_def)
qed

lemma series_layers: "series (layers rasters) idx = map (\<lambda>r. flat (band1 r) ! idx) rasters"
  by (simp add: series_def comp_def)

lemma scenario_A_run:
  "fit_and_forecast closed_form_sklearn never scenario_A [2015] Linear NoNorm =
     Inr (2, 2, outputs_A)"
  by (simp add: fit_and_forecast_def scenario_A_def outputs_A_def np_stack_def same_shape_def
      years_SS valid_mask_def expand_features_def column_def series_def init_outputs_def
      store_def clip_def never_def fit_pixel_closed_form_line upt_rec Let_def numeral_eq_Suc)

text \<open>
  C10. The observed time indices are 2013, 2014, ... in the order in which the rasters
  were supplied: the i-th raster of the input list is paired with the index 2013 + i,
  whatever the rasters hold, since nothing but their number enters the axis. The model
  of every fitted pixel is trained on exactly this axis and the pixel's values in list
  order.
\<close>

theorem observed_axis_fixed:
  "years (length rasters) = map (\<lambda>i. [2013 + real i]) [0..<length rasters] \<and>
   series (layers rasters) idx = map (\<lambda>r. flat (band1 r) ! idx) rasters \<and>
   (fit_and_forecast sk c rasters fy m nrm = Inr (H, W, out) \<and> idx < H * W \<and>
    mask_of rasters (H * W) ! idx \<and> (\<forall>i\<le>idx. \<not> c i) \<longrightarrow>
      (let axis = map (\<lambda>i. [2013 + real i]) [0..<length rasters];
           XF = expand_features m axis (column fy);
           y = map (\<lambda>r. flat (band1 r) ! idx) rasters;
           fitted = fit_pixel sk m nrm (fst XF) (snd XF) y
       in r2_vals out ! idx = Some (fst (snd fitted)) \<and>
          rmse_vals out ! idx = Some (snd (snd fitted)) \<and>
          (\<forall>k<length fy. preds out ! k ! idx = max (fst fitted ! k) 0)))"
proof (intro conjI impI)
  show "years (length rasters) = map (\<lambda>i. [2013 + real i]) [0..<length rasters]"
    by (rule years_explicit)
  show "series (layers rasters) idx = map (\<lambda>r. flat (band1 r) ! idx) rasters"
    by (rule series_layers)
next
  assume a: "fit_and_forecast sk c rasters fy m nrm = Inr (H, W, out) \<and> idx < H * W \<and>
    mask_of rasters (H * W) ! idx \<and> (\<forall>i\<le>idx. \<not> c i)"
  then have run: "fit_and_forecast sk c rasters fy m nrm = Inr (H, W, out)"
    and idx: "idx < H * W" and valid: "mask_of rasters (H * W) ! idx"
    and visited: "\<forall>i\<le>idx. \<not> c i"
    by blast+
  have v: "idx \<in> set (takeWhile (\<lambda>i. \<not> c i) [0..<H * W])"
    using idx visited by (simp add: visited_iff)
  have r2: "r2_vals out ! idx = Some (fst (snd (fit_pixel sk m nrm
                 (fst (expand_features m (years (length rasters)) (column fy)))
                 (snd (expand_features m (years (length rasters)) (column fy)))
                 (series (layers rasters) idx))))"
    using fit_and_forecast_r2[OF run idx] v valid by simp
  have rm: "rmse_vals out ! idx = Some (snd (snd (fit_pixel sk m nrm
                 (fst (expand_features m (years (length rasters)) (column fy)))
                 (snd (expand_features m (years (length rasters)) (column fy)))
                 (series (layers rasters) idx))))"
    using fit_and_forecast_rmse[OF run idx] v valid by simp
  have pr: "preds out ! k ! idx = max (fst (fit_pixel sk m nrm
                 (fst (expand_features m (years (length rasters)) (column fy)))
                 (snd (expand_features m (years (length rasters)) (column fy)))
                 (series (layers rasters) idx)) ! k) 0" if "k < length fy" for k
    using fit_and_forecast_preds[OF run that idx] v valid by simp
  show "let axis = map (\<lambda>i. [2013 + real i]) [0..<length rasters];
           XF = expand_features m axis (column fy);
           y = map (\<lambda>r. flat (band1 r) ! idx) rasters;
           fitted = fit_pixel sk m nrm (fst XF) (snd XF) y
       in r2_vals out ! idx = Some (fst (snd fitted)) \<and>
          rmse_vals out ! idx = Some (snd (snd fitted)) \<and>
          (\<forall>k<length fy. preds out ! k ! idx = max (fst fitted ! k) 0)"
    unfolding Let_def years_explicit[symmetric] series_layers[symmetric]
    using r2 rm pr by blast
qed

theorem observed_axis_fixed_witness:
  "years (length scenario_A) = [[2013], [2014]] \<and>
   series (layers scenario_A) 0 = [1, 2] \<and>
   fit_and_forecast closed_form_sklearn never scenario_A [2015] Linear NoNorm =
     Inr (2, 2, outputs_A) \<and> (0::nat) < 2 * 2 \<and> mask_of scenario_A (2 * 2) ! 0 \<and> \<not> never 0 \<and>
   r2_vals outputs_A ! 0 =
     Some (fst (snd (fit_pixel closed_form_sklearn Linear NoNorm [[2013], [2014]] [[2015]] [1, 2])))"
proof -
  have m0: "mask_of scenario_A (2 * 2) ! 0"
    by (simp add: scenario_A_def valid_mask_def)
  have nv: "\<forall>i\<le>0. \<not> never i" by (simp add: never_def)
  have ax: "map (\<lambda>i. [2013 + real i]) [0..<length scenario_A] = [[2013], [2014]]"
    by (simp add: scenario_A_def)
  have y: "map (\<lambda>r. flat (band1 r) ! 0) scenario_A = [1, 2]"
    by (simp add: scenario_A_def)
  have xf: "expand_features Linear [[2013], [2014]] (column [2015]) = ([[2013], [2014]], [[2015]])"
    by (simp add: expand_features_def column_def)
  show ?thesis
    using observed_axis_fixed[of scenario_A 0 closed_form_sklearn never "[2015]" Linear NoNorm
        2 2 outputs_A]
      scenario_A_run m0 nv
    by (simp add: ax y xf Let_def never_def fit_pixel_closed_form_line outputs_A_def)
qed

end
